theory Spec2Isabelle
  imports Main "HOL-Library.Sublist" "HOL-Library.Word"
begin

section \<open>Python strings\<close>

text \<open>
  A Python \<open>str\<close> is a sequence of code points. It is modelled as a \<open>string\<close> whose
  characters are read as the code points U+0000 to U+00FF (Latin-1), which is also the
  range of the header values that the HTTP client library hands over. The three character
  predicates below are Python's \<open>str.isalnum\<close>, \<open>str.isspace\<close> and \<open>str.lower\<close> on
  that range: besides the ASCII letters and digits, \<open>isalnum\<close> accepts the letters and
  numeric characters of the Latin-1 supplement.
\<close>

definition py_isalnum :: "char \<Rightarrow> bool" where
  "py_isalnum c =
     (let n = (of_char c :: nat) in
        (48 \<le> n \<and> n \<le> 57) \<or> (65 \<le> n \<and> n \<le> 90) \<or> (97 \<le> n \<and> n \<le> 122) \<or>
        n = 170 \<or> n = 178 \<or> n = 179 \<or> n = 181 \<or> n = 185 \<or> n = 186 \<or>
        (188 \<le> n \<and> n \<le> 190) \<or> (192 \<le> n \<and> n \<le> 214) \<or>
        (216 \<le> n \<and> n \<le> 246) \<or> (248 \<le> n \<and> n \<le> 255))"

definition py_isspace :: "char \<Rightarrow> bool" where
  "py_isspace c =
     (let n = (of_char c :: nat) in
        (9 \<le> n \<and> n \<le> 13) \<or> (28 \<le> n \<and> n \<le> 32) \<or> n = 133 \<or> n = 160)"

definition py_lower_char :: "char \<Rightarrow> char" where
  "py_lower_char c =
     (let n = (of_char c :: nat) in
        if (65 \<le> n \<and> n \<le> 90) \<or> (192 \<le> n \<and> n \<le> 222 \<and> n \<noteq> 215)
        then char_of (n + 32) else c)"

definition lower :: "string \<Rightarrow> string" where
  "lower s = map py_lower_char s"

text \<open>\<open>sub in s\<close>: \<open>sub\<close> occurs in \<open>s\<close> as a contiguous substring.\<close>

fun str_contains :: "string \<Rightarrow> string \<Rightarrow> bool" where
  "str_contains sub [] = (sub = [])"
| "str_contains sub (c # s) = (prefix sub (c # s) \<or> str_contains sub s)"

text \<open>\<open>s.endswith(suf)\<close>.\<close>

definition endswith :: "string \<Rightarrow> string \<Rightarrow> bool" where
  "endswith s suf = suffix suf s"

text \<open>\<open>s.split(sep)[0]\<close> for a one-character separator: the part before its first occurrence.\<close>

definition split_first :: "char \<Rightarrow> string \<Rightarrow> string" where
  "split_first sep s = takeWhile (\<lambda>c. c \<noteq> sep) s"

text \<open>\<open>s.strip()\<close>: leading and trailing whitespace removed.\<close>

definition strip :: "string \<Rightarrow> string" where
  "strip s = rev (dropWhile py_isspace (rev (dropWhile py_isspace s)))"

text \<open>\<open>os.path.basename(p)\<close> (POSIX): what follows the last slash, \<open>p[p.rfind('/') + 1:]\<close>.\<close>

definition basename :: "string \<Rightarrow> string" where
  "basename p = rev (takeWhile (\<lambda>c. c \<noteq> CHR ''/'') (rev p))"

text \<open>\<open>d.get(k, default)\<close> on a dictionary kept as an association list.\<close>

definition dict_get :: "(string \<times> string) list \<Rightarrow> string \<Rightarrow> string \<Rightarrow> string" where
  "dict_get d k dflt = (case map_of d k of None \<Rightarrow> dflt | Some v \<Rightarrow> v)"

section \<open>The upstream response and the libraries\<close>

type_synonym byte = "8 word"

text \<open>
  A JSON value as Python holds it after parsing; a float is kept as the 64 bits of its
  IEEE double. Python's parser also produces the floats that are not finite: for the
  literals \<open>NaN\<close>, \<open>Infinity\<close> and \<open>-Infinity\<close>, and for a number too large for a double, such
  as \<open>1e999\<close>.
\<close>

datatype json =
    JNull
  | JBool bool
  | JInt int
  | JFloat "64 word"
  | JStr string
  | JArr "json list"
  | JObj "(string \<times> json) list"

text \<open>\<open>math.isfinite\<close> on the bits of a double: the eleven exponent bits are not all ones.\<close>

definition isfinite :: "64 word \<Rightarrow> bool" where
  "isfinite x = (take_bit 11 (drop_bit 52 x) \<noteq> (2047 :: 64 word))"

text \<open>
  Whether \<open>json.dumps(content, allow_nan=False)\<close> accepts a value: no float in it is a NaN or
  an infinity. Everything else is serialised without an error: integers, and the strings of
  the model, which are Latin-1 strings and so can always be encoded as UTF-8.
\<close>

fun json_compliant :: "json \<Rightarrow> bool" where
  "json_compliant (JFloat x) = isfinite x"
| "json_compliant (JArr xs) = list_all json_compliant xs"
| "json_compliant (JObj kvs) = list_all (\<lambda>(k, v). json_compliant v) kvs"
| "json_compliant j = True"

text \<open>
  The \<open>requests.Response\<close> object, by what the handler consumes of it. The request is made
  with \<open>stream=True\<close>, so the body is read from the connection only when the handler asks
  for it, and that read can fail.
  \<^item> \<open>headers\<close>: the case-insensitive header dictionary, keyed by lower-case names (every
    lookup of the handler uses a lower-case literal);
  \<^item> \<open>resp_text\<close>: the value of \<open>resp.text\<close> when the body can be read;
  \<^item> \<open>resp_json\<close>: the result of \<open>resp.json()\<close> when the body can be read, \<open>None\<close> for a
    \<open>JSONDecodeError\<close>;
  \<^item> \<open>iter_content\<close>: the method \<open>resp.iter_content(chunk_size)\<close>, by the chunks that the
    iteration yields, in the order in which it yields them. How the library cuts the body
    is its own business: \<open>chunk_size\<close> is the number of bytes it reads at a time, a chunk of
    a chunked transfer is yielded on its own, and a compressed body is decoded before it is
    yielded, so the chunks need not have \<open>chunk_size\<close> bytes;
  \<^item> \<open>broken\<close>: \<open>Some msg\<close> when the connection fails while the body is read: reading the
    whole body raises an exception \<open>e\<close> with \<open>str(e) = msg\<close>, and the iteration yields its
    chunks and then raises it.
\<close>

record upstream_response =
  status_code :: int
  headers :: "(string \<times> string) list"
  resp_text :: string
  resp_json :: "json option"
  iter_content :: "nat \<Rightarrow> byte list list"
  broken :: "string option"

text \<open>
  The exceptions of \<open>requests.get\<close>, each with its \<open>str(e)\<close>. \<open>ConnectTimeout\<close> is a subclass
  of both \<open>Timeout\<close> and \<open>ConnectionError\<close>; \<open>RequestException\<close> stands for every other
  subclass of the base class.
\<close>

datatype requests_exception =
    ReadTimeout string
  | ConnectTimeout string
  | ConnectionError string
  | RequestException string

fun isinstance_Timeout :: "requests_exception \<Rightarrow> bool" where
  "isinstance_Timeout (ReadTimeout m) = True"
| "isinstance_Timeout (ConnectTimeout m) = True"
| "isinstance_Timeout (ConnectionError m) = False"
| "isinstance_Timeout (RequestException m) = False"

fun isinstance_ConnectionError :: "requests_exception \<Rightarrow> bool" where
  "isinstance_ConnectionError (ReadTimeout m) = False"
| "isinstance_ConnectionError (ConnectTimeout m) = True"
| "isinstance_ConnectionError (ConnectionError m) = True"
| "isinstance_ConnectionError (RequestException m) = False"

fun str_of :: "requests_exception \<Rightarrow> string" where
  "str_of (ReadTimeout m) = m"
| "str_of (ConnectTimeout m) = m"
| "str_of (ConnectionError m) = m"
| "str_of (RequestException m) = m"

text \<open>
  How parsing a JSON text fails: with a \<open>JSONDecodeError\<close>, or with any other exception \<open>e\<close>
  (a \<open>RecursionError\<close> for a text nested too deeply, for instance), kept by its \<open>str(e)\<close>.
\<close>

datatype json_error = JSONDecodeError | OtherError string

text \<open>
  What the handler calls and the repository does not contain: the network and the library
  functions. They are parameters of the model.
  \<^item> \<open>requests_get url params timeout stream\<close>: the outcome of \<open>requests.get\<close>;
  \<^item> \<open>json_loads\<close>: \<open>json.loads\<close>, with the exception it raises on the left;
  \<^item> \<open>dumps_error\<close>: the \<open>str(e)\<close> of the \<open>ValueError\<close> that \<open>json.dumps(..., allow_nan=False)\<close>
    raises for a value with a float that is not finite (its wording depends on the version
    of the interpreter);
  \<^item> \<open>urlparse_path\<close>: the \<open>path\<close> of \<open>urllib.parse.urlparse\<close>, \<open>None\<close> when it raises;
  \<^item> \<open>guess_extension\<close>: \<open>mimetypes.guess_extension\<close>.
\<close>

record env =
  requests_get ::
    "string \<Rightarrow> (string \<times> string) list \<Rightarrow> nat \<Rightarrow> bool \<Rightarrow> requests_exception + upstream_response"
  json_loads :: "string \<Rightarrow> json_error + json"
  dumps_error :: "json \<Rightarrow> string"
  urlparse_path :: "string \<Rightarrow> string option"
  guess_extension :: "string \<Rightarrow> string option"

text \<open>The effects a claim speaks of: a request sent upstream, and \<open>resp.close()\<close>.\<close>

datatype event =
    UpstreamGet string "(string \<times> string) list"
  | Close

section \<open>The upstream call\<close>

text \<open>The dictionary that \<open>_fetch_from_tele_social_sync\<close> returns, by its \<open>type\<close> tag.\<close>

datatype fetch_result =
    Error_upstream upstream_response
  | Success upstream_response
  | Exception string string

definition fetch_from_tele_social_sync ::
  "env \<Rightarrow> string \<Rightarrow> string \<Rightarrow> (string \<times> string) list \<Rightarrow> fetch_result \<times> event list" where
  "fetch_from_tele_social_sync E target_url api_base_url params =
     ((case requests_get E api_base_url params 90 True of
         Inr upstream_response \<Rightarrow>
           if status_code upstream_response \<ge> 400 then Error_upstream upstream_response
           else Success upstream_response
       | Inl e \<Rightarrow>
           if isinstance_Timeout e then
             Exception ''Timeout'' (''Request to upstream API timed out for URL: '' @ target_url)
           else if isinstance_ConnectionError e then
             Exception ''ConnectionError''
               (''Could not connect to upstream API for URL: '' @ target_url)
           else
             Exception ''RequestException''
               (''Upstream API request error for '' @ target_url @ '': '' @ str_of e)),
      [UpstreamGet api_base_url params])"

text \<open>
  \<open>get_content_from_tele_social\<close>: \<open>Inl (status, detail)\<close> is the \<open>HTTPException\<close> it raises.
\<close>

definition get_content_from_tele_social ::
  "env \<Rightarrow> string \<Rightarrow> ((int \<times> string) + upstream_response) \<times> event list" where
  "get_content_from_tele_social E target_url =
     (let api_base_url = ''https://tele-social.vercel.app/down'';
          params = [(''url'', target_url)];
          (result_dict, evs) = fetch_from_tele_social_sync E target_url api_base_url params
      in ((case result_dict of
             Exception exception_type detail \<Rightarrow>
               if exception_type = ''Timeout'' then Inl (504, detail)
               else if exception_type = ''ConnectionError'' then Inl (503, detail)
               else Inl (500, detail)
           | Error_upstream response_object \<Rightarrow> Inr response_object
           | Success response_object \<Rightarrow> Inr response_object),
          evs))"

text \<open>
  The two helpers that read the whole body. Their \<open>finally\<close> clause closes the response
  whether or not the read raised.
\<close>

definition parse_json_and_close_sync :: "upstream_response \<Rightarrow> (json_error + json) \<times> event list" where
  "parse_json_and_close_sync resp =
     ((case broken resp of
         Some m \<Rightarrow> Inl (OtherError m)
       | None \<Rightarrow> (case resp_json resp of None \<Rightarrow> Inl JSONDecodeError | Some data \<Rightarrow> Inr data)),
      [Close])"

definition read_text_and_close_sync :: "upstream_response \<Rightarrow> (string + string) \<times> event list" where
  "read_text_and_close_sync resp =
     ((case broken resp of Some m \<Rightarrow> Inl m | None \<Rightarrow> Inr (resp_text resp)), [Close])"

section \<open>The streaming generator\<close>

text \<open>
  \<open>file_streaming_generator\<close> is an asynchronous generator: a \<open>for\<close> loop over
  \<open>resp.iter_content\<close> that yields every chunk, inside a \<open>try\<close> whose \<open>finally\<close> closes the
  response. A generator object is created without running any of its body. Its state is
  whether the body has been entered, the chunks the iteration will still deliver, and
  whether the iteration raises after them; \<open>Finished\<close> is the generator that has returned,
  raised or been closed.
\<close>

datatype generator =
    Generator (started: bool) (pending: "byte list list") (failure: "string option")
  | Finished

definition file_streaming_generator :: "upstream_response \<Rightarrow> nat \<Rightarrow> generator" where
  "file_streaming_generator resp chunk_size =
     Generator False (iter_content resp chunk_size) (broken resp)"

datatype step = Yield "byte list" | StopAsyncIteration | Raise string

text \<open>
  One \<open>__anext__\<close>: the body runs to the next \<open>yield\<close>. When the iteration ends or raises,
  the \<open>finally\<close> clause closes the response before the generator finishes.
\<close>

fun anext :: "generator \<Rightarrow> step \<times> generator \<times> event list" where
  "anext (Generator s (chunk # rest) f) = (Yield chunk, Generator True rest f, [])"
| "anext (Generator s [] None) = (StopAsyncIteration, Finished, [Close])"
| "anext (Generator s [] (Some m)) = (Raise m, Finished, [Close])"
| "anext Finished = (StopAsyncIteration, Finished, [])"

text \<open>
  \<open>aclose()\<close>: a generator suspended at its \<open>yield\<close> receives \<open>GeneratorExit\<close> there and runs
  its \<open>finally\<close> clause; one whose body was never entered finishes without running any of
  it.
\<close>

fun aclose :: "generator \<Rightarrow> generator \<times> event list" where
  "aclose (Generator True rest f) = (Finished, [Close])"
| "aclose (Generator False rest f) = (Finished, [])"
| "aclose Finished = (Finished, [])"

text \<open>
  The consumer of the response body asks for at most \<open>n\<close> chunks, stopping early when the
  generator finishes, and then lets go of the generator.
\<close>

fun pull :: "nat \<Rightarrow> generator \<Rightarrow> byte list list \<times> generator \<times> event list" where
  "pull 0 g = ([], g, [])"
| "pull (Suc n) g =
     (case anext g of
        (Yield chunk, g', evs) \<Rightarrow>
          (case pull n g' of (chunks, g'', evs') \<Rightarrow> (chunk # chunks, g'', evs @ evs'))
      | (StopAsyncIteration, g', evs) \<Rightarrow> ([], g', evs)
      | (Raise m, g', evs) \<Rightarrow> ([], g', evs))"

definition consume :: "nat \<Rightarrow> generator \<Rightarrow> byte list list \<times> event list" where
  "consume n g =
     (case pull n g of (chunks, g', evs) \<Rightarrow>
        (case aclose g' of (g'', evs') \<Rightarrow> (chunks, evs @ evs')))"

text \<open>Reading the stream to its end: one request more than there are chunks.\<close>

definition drain :: "generator \<Rightarrow> byte list list \<times> event list" where
  "drain g = consume (case g of Generator s rest f \<Rightarrow> Suc (length rest) | Finished \<Rightarrow> 0) g"

section \<open>The handler\<close>

datatype outcome =
    RequestValidationError
  | HTTPException int string
  | JSONResponse json int
  | StreamingResponse generator int "(string \<times> string) list"

record result =
  outcome :: outcome
  events :: "event list"

text \<open>The status line of the outward response; a validation error is answered with 422.\<close>

fun outward_status :: "outcome \<Rightarrow> int" where
  "outward_status RequestValidationError = 422"
| "outward_status (HTTPException code detail) = code"
| "outward_status (JSONResponse body code) = code"
| "outward_status (StreamingResponse g code hs) = code"

text \<open>
  \<open>JSONResponse(content=..., status_code=...)\<close>: the constructor of the framework's response
  class renders the body at once, with \<open>json.dumps(content, allow_nan=False, ...)\<close>, so it
  raises a \<open>ValueError\<close> (on the left, by its \<open>str(e)\<close>) for a content that holds a float
  that is not finite. The handler constructs its JSON responses inside its \<open>try\<close> blocks.
\<close>

definition JSONResponse_init :: "env \<Rightarrow> json \<Rightarrow> int \<Rightarrow> string + outcome" where
  "JSONResponse_init E content code =
     (if json_compliant content then Inr (JSONResponse content code)
      else Inl (dumps_error E content))"

text \<open>
  Lines 129 to 130: the characters kept in a file name, the \<open>strip()\<close> and the default for
  an empty result.
\<close>

definition sanitize :: "string \<Rightarrow> string" where
  "sanitize filename =
     (let filename = strip (filter (\<lambda>c. py_isalnum c \<or> c \<in> set ''._-'') filename)
      in if filename = [] then ''downloaded_file'' else filename)"

text \<open>
  Lines 119 to 128: the name before it is sanitized, \<open>None\<close> when \<open>urlparse\<close> raises. A
  guessed extension counts when it is not \<open>None\<close> and not empty.
\<close>

definition derive_filename :: "env \<Rightarrow> string \<Rightarrow> (string \<times> string) list \<Rightarrow> string option" where
  "derive_filename E url response_headers =
     (case urlparse_path E url of
        None \<Rightarrow> None
      | Some path \<Rightarrow>
          (let path_basename = basename path
           in if path_basename \<noteq> [] then
                (let filename_stem = split_first CHR ''#'' (split_first CHR ''?'' path_basename);
                     guessed_extension =
                       guess_extension E
                         (dict_get response_headers ''Content-Type'' ''application/octet-stream'')
                 in case guessed_extension of
                      None \<Rightarrow> Some filename_stem
                    | Some ext \<Rightarrow>
                        if ext \<noteq> [] \<and> \<not> endswith (lower filename_stem) (lower ext)
                        then Some (filename_stem @ ext)
                        else Some filename_stem)
              else Some ''downloaded_file''))"

definition attachment :: "string \<Rightarrow> string" where
  "attachment filename = ''attachment; filename='' @ [CHR 0x22] @ filename @ [CHR 0x22]"

text \<open>Lines 111 to 136: the headers of the streamed response, in the order they are set.\<close>

definition stream_headers :: "env \<Rightarrow> string \<Rightarrow> upstream_response \<Rightarrow> (string \<times> string) list" where
  "stream_headers E url upstream_response =
     (let response_headers =
            (case map_of (headers upstream_response) ''content-type'' of
               Some v \<Rightarrow> [(''Content-Type'', v)]
             | None \<Rightarrow> []);
          response_headers =
            (case map_of (headers upstream_response) ''content-disposition'' of
               Some v \<Rightarrow> response_headers @ [(''Content-Disposition'', v)]
             | None \<Rightarrow>
                 (case derive_filename E url response_headers of
                    Some filename \<Rightarrow>
                      response_headers @ [(''Content-Disposition'', attachment (sanitize filename))]
                  | None \<Rightarrow>
                      response_headers @ [(''Content-Disposition'', attachment ''downloaded_file'')]))
      in case map_of (headers upstream_response) ''content-length'' of
           Some v \<Rightarrow> response_headers @ [(''Content-Length'', v)]
         | None \<Rightarrow> response_headers)"

definition download_content_via_proxy :: "env \<Rightarrow> string \<Rightarrow> result" where
  "download_content_via_proxy E url =
     (if url = [] then
        \<lparr>outcome = HTTPException 400 ''The 'url' query parameter is required.'', events = []\<rparr>
      else
        (case get_content_from_tele_social E url of
           (Inl (code, detail), evs) \<Rightarrow> \<lparr>outcome = HTTPException code detail, events = evs\<rparr>
         | (Inr upstream_response, evs) \<Rightarrow>
             (let response_status_code = status_code upstream_response;
                  content_type = lower (dict_get (headers upstream_response) ''content-type'' [])
              in if response_status_code \<ge> 400 then
                   (case read_text_and_close_sync upstream_response of
                      (read, evs') \<Rightarrow>
                        (case
                           (case read of
                              Inl e \<Rightarrow> Inl e
                            | Inr error_body_text \<Rightarrow>
                                (case json_loads E error_body_text of
                                   Inr error_json \<Rightarrow>
                                     JSONResponse_init E error_json response_status_code
                                 | Inl JSONDecodeError \<Rightarrow>
                                     JSONResponse_init E
                                       (JObj [(''error'', JStr ''Upstream API error''),
                                              (''details'', JStr error_body_text),
                                              (''upstream_status_code'',
                                               JInt response_status_code)])
                                       response_status_code
                                 | Inl (OtherError e) \<Rightarrow> Inl e))
                         of
                           Inr response \<Rightarrow> \<lparr>outcome = response, events = evs @ evs'\<rparr>
                         | Inl e \<Rightarrow>
                             \<lparr>outcome = HTTPException 502
                                (''Failed to read or process error response from upstream API: ''
                                 @ e),
                              events = evs @ evs'\<rparr>))
                 else if str_contains ''application/json'' content_type then
                   (case parse_json_and_close_sync upstream_response of
                      (Inr json_data, evs') \<Rightarrow>
                        (case JSONResponse_init E json_data response_status_code of
                           Inr response \<Rightarrow> \<lparr>outcome = response, events = evs @ evs'\<rparr>
                         | Inl e \<Rightarrow>
                             \<lparr>outcome = HTTPException 500
                                ''Server error while processing upstream JSON response.'',
                              events = evs @ evs'\<rparr>)
                    | (Inl JSONDecodeError, evs') \<Rightarrow>
                        \<lparr>outcome = HTTPException 502
                           ''Upstream API returned malformed JSON despite declaring JSON content type.'',
                         events = evs @ evs'\<rparr>
                    | (Inl (OtherError m), evs') \<Rightarrow>
                        \<lparr>outcome = HTTPException 500
                           ''Server error while processing upstream JSON response.'',
                         events = evs @ evs'\<rparr>)
                 else
                   \<lparr>outcome = StreamingResponse
                      (file_streaming_generator upstream_response (1024 * 64))
                      response_status_code
                      (stream_headers E url upstream_response),
                    events = evs\<rparr>)))"

text \<open>
  The route: \<open>url: str = Query(...)\<close> declares the query parameter required, so a request
  without it (\<open>None\<close>) is answered by the framework's validation and the handler is not
  called.
\<close>

definition download_endpoint :: "env \<Rightarrow> string option \<Rightarrow> result" where
  "download_endpoint E url_param =
     (case url_param of
        None \<Rightarrow> \<lparr>outcome = RequestValidationError, events = []\<rparr>
      | Some url \<Rightarrow> download_content_via_proxy E url)"

section \<open>What the claims speak of\<close>

text \<open>The character set \<open>[A-Za-z0-9._-]\<close>, by code points.\<close>

definition in_charset :: "char \<Rightarrow> bool" where
  "in_charset c =
     (let n = (of_char c :: nat) in
        (48 \<le> n \<and> n \<le> 57) \<or> (65 \<le> n \<and> n \<le> 90) \<or> (97 \<le> n \<and> n \<le> 122) \<or>
        c = CHR ''.'' \<or> c = CHR ''_'' \<or> c = CHR ''-'')"




text \<open>How many times the response was closed in a run.\<close>

definition closes :: "event list \<Rightarrow> nat" where
  "closes evs = length (filter (\<lambda>e. e = Close) evs)"

text \<open>How many requests were sent upstream in a run.\<close>

definition upstream_calls :: "event list \<Rightarrow> nat" where
  "upstream_calls evs = length (filter (\<lambda>e. e \<noteq> Close) evs)"

section \<open>Concrete inputs\<close>

text \<open>
  A small world to run the handler in: a few target URLs with the path that \<open>urlparse\<close>
  gives for them (the one that is not listed makes it raise), a few entries of the
  \<open>mimetypes\<close> table, a \<open>json.loads\<close> that knows a few documents (among them the number
  \<open>1e999\<close>, which it reads as the float infinity, and the literal \<open>NaN\<close>), and a network that
  answers every request with the given reply.
\<close>

definition example_urls :: "(string \<times> string) list" where
  "example_urls =
     [(''https://x.test/p/abc.def?x=1'', ''/p/abc.def''),
      (''https://x.test/media/clip.MP4'', ''/media/clip.MP4''),
      (''https://x.test/media/'', ''/media/''),
      (''https://x.test/caf'' @ [CHR 0xE9], ''/caf'' @ [CHR 0xE9])]"

definition example_types :: "(string \<times> string) list" where
  "example_types =
     [(''video/mp4'', ''.mp4''), (''image/jpeg'', ''.jpg''), (''text/plain'', ''.txt''),
      (''application/octet-stream'', ''.bin''), (''text/html'', ''.html'')]"

definition example_loads :: "string \<Rightarrow> json_error + json" where
  "example_loads s =
     (if s = ''{''@ [CHR 0x22] @ ''error'' @ [CHR 0x22] @ '': 404}''
      then Inr (JObj [(''error'', JInt 404)])
      else if s = ''null'' then Inr JNull
      else if s = ''[1]'' then Inr (JArr [JInt 1])
      else if s = ''1e999'' then Inr (JFloat 0x7FF0000000000000)
      else if s = ''NaN'' then Inr (JFloat 0x7FF8000000000000)
      else Inl JSONDecodeError)"

definition example_env :: "(requests_exception + upstream_response) \<Rightarrow> env" where
  "example_env reply =
     \<lparr>requests_get = (\<lambda>url params timeout stream. reply),
      json_loads = example_loads,
      dumps_error = (\<lambda>content. ''Out of range float values are not JSON compliant''),
      urlparse_path = map_of example_urls,
      guess_extension = map_of example_types\<rparr>"

text \<open>
  The body of an example answer is given by the pieces in which it arrives, already decoded:
  the chunks of a chunked transfer, or the whole body of a plain one. Its iteration yields
  every piece in slices of \<open>chunk_size\<close> bytes, the last slice of a piece holding what is
  left of it, and never an empty chunk.
\<close>

function slices :: "nat \<Rightarrow> byte list \<Rightarrow> byte list list" where
  "slices chunk_size piece =
     (if chunk_size = 0 \<or> piece = [] then []
      else take chunk_size piece # slices chunk_size (drop chunk_size piece))"
  by pat_completeness auto
termination
  by (relation "measure (\<lambda>(n, piece). length piece)") auto

declare slices.simps [simp del]

definition example_response ::
  "int \<Rightarrow> (string \<times> string) list \<Rightarrow> string \<Rightarrow> json option \<Rightarrow> byte list list \<Rightarrow>
     upstream_response" where
  "example_response code hs txt js pieces =
     \<lparr>status_code = code, headers = hs, resp_text = txt, resp_json = js,
      iter_content = (\<lambda>chunk_size. concat (map (slices chunk_size) pieces)),
      broken = None\<rparr>"



text \<open>A video answer of five bytes with no Content-Disposition header.\<close>

definition video_response :: upstream_response where
  "video_response =
     example_response 200 [(''content-type'', ''video/mp4''), (''content-length'', ''5'')]
       [] None [[0, 0, 0, 24, 102]]"

text \<open>An answer whose Content-Type carries a parameter, and one with no Content-Type at all.\<close>

definition charset_response :: upstream_response where
  "charset_response =
     example_response 200 [(''content-type'', ''video/mp4; charset=utf-8'')] [] None [[1]]"

definition untyped_response :: upstream_response where
  "untyped_response = example_response 200 [] [] None [[1]]"


section \<open>Transport failures and the missing parameter\<close>

lemma str_contains_prefix: "prefix sub s \<Longrightarrow> str_contains sub s"
  by (cases s) auto

lemma str_contains_append: "str_contains sub (pre @ sub @ post)"
  by (induction pre) (simp_all add: str_contains_prefix)

lemma str_contains_suffix: "str_contains sub (pre @ sub)"
  using str_contains_append [of sub pre "[]"] by (simp only: append_Nil2)

lemma proxy_on_exception:
  assumes "url \<noteq> []"
    and "requests_get E ''https://tele-social.vercel.app/down'' [(''url'', url)] 90 True = Inl e"
  shows "download_content_via_proxy E url =
           \<lparr>outcome =
              (if isinstance_Timeout e then
                 HTTPException 504 (''Request to upstream API timed out for URL: '' @ url)
               else if isinstance_ConnectionError e then
                 HTTPException 503 (''Could not connect to upstream API for URL: '' @ url)
               else
                 HTTPException 500
                   (''Upstream API request error for '' @ url @ '': '' @ str_of e)),
            events = [UpstreamGet ''https://tele-social.vercel.app/down'' [(''url'', url)]]\<rparr>"
  using assms
  by (simp add: download_content_via_proxy_def get_content_from_tele_social_def
      fetch_from_tele_social_sync_def)

lemma get_content_on_response:
  assumes "requests_get E ''https://tele-social.vercel.app/down'' [(''url'', url)] 90 True = Inr r"
  shows "get_content_from_tele_social E url =
           (Inr r, [UpstreamGet ''https://tele-social.vercel.app/down'' [(''url'', url)]])"
  using assms by (simp add: get_content_from_tele_social_def fetch_from_tele_social_sync_def)

text \<open>
  C4: when the one upstream call fails at the transport level, a timeout is answered with
  504, a connection failure with 503 and any other exception of the HTTP library with 500;
  in all three cases the detail message contains the target URL, and exactly one request
  was sent upstream.
\<close>

theorem transport_failure_status:
  assumes "url \<noteq> []"
    and "requests_get E ''https://tele-social.vercel.app/down'' [(''url'', url)] 90 True = Inl e"
  shows "(isinstance_Timeout e \<longrightarrow>
            outcome (download_content_via_proxy E url) =
              HTTPException 504 (''Request to upstream API timed out for URL: '' @ url)) \<and>
         (\<not> isinstance_Timeout e \<and> isinstance_ConnectionError e \<longrightarrow>
            outcome (download_content_via_proxy E url) =
              HTTPException 503 (''Could not connect to upstream API for URL: '' @ url)) \<and>
         (\<not> isinstance_Timeout e \<and> \<not> isinstance_ConnectionError e \<longrightarrow>
            outcome (download_content_via_proxy E url) =
              HTTPException 500 (''Upstream API request error for '' @ url @ '': '' @ str_of e)) \<and>
         (\<exists>code detail.
            outcome (download_content_via_proxy E url) = HTTPException code detail \<and>
            (code = 504 \<or> code = 503 \<or> code = 500) \<and> str_contains url detail) \<and>
         upstream_calls (events (download_content_via_proxy E url)) = 1"
proof -
  note run = proxy_on_exception [OF assms]
  have c1: "str_contains url (''Request to upstream API timed out for URL: '' @ url)"
    by (rule str_contains_suffix)
  have c2: "str_contains url (''Could not connect to upstream API for URL: '' @ url)"
    by (rule str_contains_suffix)
  have c3: "str_contains url (''Upstream API request error for '' @ url @ '': '' @ str_of e)"
    by (rule str_contains_append)
  have calls: "upstream_calls (events (download_content_via_proxy E url)) = 1"
    by (simp add: run upstream_calls_def)
  show ?thesis
  proof (cases "isinstance_Timeout e")
    case True
    then have "outcome (download_content_via_proxy E url) =
        HTTPException 504 (''Request to upstream API timed out for URL: '' @ url)"
      by (simp add: run)
    with True c1 calls show ?thesis by simp
  next
    case no_timeout: False
    show ?thesis
    proof (cases "isinstance_ConnectionError e")
      case True
      with no_timeout have "outcome (download_content_via_proxy E url) =
          HTTPException 503 (''Could not connect to upstream API for URL: '' @ url)"
        by (simp add: run)
      with True no_timeout c2 calls show ?thesis by simp
    next
      case False
      with no_timeout have "outcome (download_content_via_proxy E url) =
          HTTPException 500 (''Upstream API request error for '' @ url @ '': '' @ str_of e)"
        by (simp add: run)
      with False no_timeout c3 calls show ?thesis by simp
    qed
  qed
qed

theorem transport_failure_status_witness:
  "outcome (download_content_via_proxy
      (example_env (Inl (ReadTimeout ''read timed out''))) ''https://x.test/v'') =
     HTTPException 504 ''Request to upstream API timed out for URL: https://x.test/v'' \<and>
   outcome (download_content_via_proxy
      (example_env (Inl (ConnectTimeout ''connect timed out''))) ''https://x.test/v'') =
     HTTPException 504 ''Request to upstream API timed out for URL: https://x.test/v'' \<and>
   outcome (download_content_via_proxy
      (example_env (Inl (ConnectionError ''refused''))) ''https://x.test/v'') =
     HTTPException 503 ''Could not connect to upstream API for URL: https://x.test/v'' \<and>
   outcome (download_content_via_proxy
      (example_env (Inl (RequestException ''too many redirects''))) ''https://x.test/v'') =
     HTTPException 500
       ''Upstream API request error for https://x.test/v: too many redirects'' \<and>
   upstream_calls (events (download_content_via_proxy
      (example_env (Inl (ConnectionError ''refused''))) ''https://x.test/v'')) = 1"
proof -
  have nonempty: "''https://x.test/v'' \<noteq> []"
    by simp
  have reply: "requests_get (example_env (Inl e)) ''https://tele-social.vercel.app/down''
      [(''url'', ''https://x.test/v'')] 90 True = Inl e" for e
    by (simp add: example_env_def)
  show ?thesis
    using transport_failure_status [OF nonempty reply, of "ReadTimeout ''read timed out''"]
      transport_failure_status [OF nonempty reply, of "ConnectTimeout ''connect timed out''"]
      transport_failure_status [OF nonempty reply, of "ConnectionError ''refused''"]
      transport_failure_status [OF nonempty reply, of "RequestException ''too many redirects''"]
    by simp
qed

text \<open>
  C5, as the code has it: a request whose \<open>url\<close> parameter is the empty string is answered
  with 400 and the detail \<open>The 'url' query parameter is required.\<close>; a request without the
  parameter does not reach the handler, since the parameter is declared required, and is
  answered with the framework's validation error 422. In neither case is a request sent
  upstream, whatever the network and the libraries are.
\<close>

theorem missing_url_rejected:
  "download_endpoint E (Some []) =
     \<lparr>outcome = HTTPException 400 ''The 'url' query parameter is required.'', events = []\<rparr> \<and>
   outward_status (outcome (download_endpoint E (Some []))) = 400 \<and>
   download_endpoint E None = \<lparr>outcome = RequestValidationError, events = []\<rparr> \<and>
   outward_status (outcome (download_endpoint E None)) = 422 \<and>
   upstream_calls (events (download_endpoint E (Some []))) = 0 \<and>
   upstream_calls (events (download_endpoint E None)) = 0"
  by (simp add: download_endpoint_def download_content_via_proxy_def upstream_calls_def)

text \<open>
  The claim as the spec words it fails for the absent parameter: the status is 422, not 400.
\<close>

theorem absent_url_counterexample:
  "outward_status (outcome (download_endpoint
      (example_env (Inl (ConnectionError ''refused''))) None)) = 422 \<and>
   outcome (download_endpoint (example_env (Inl (ConnectionError ''refused''))) None) \<noteq>
     HTTPException 400 ''The 'url' query parameter is required.''"
  by (simp add: download_endpoint_def)

section \<open>Upstream errors and JSON answers\<close>



lemma wrapper_compliant:
  "json_compliant
     (JObj [(''error'', JStr ''Upstream API error''), (''details'', JStr text),
            (''upstream_status_code'', JInt code)])"
  by simp










section \<open>Streaming\<close>

lemma pull_Generator:
  "pull n (Generator s chunks f) =
     (take n chunks,
      (if n = 0 then Generator s chunks f
       else if n \<le> length chunks then Generator True (drop n chunks) f
       else Finished),
      (if length chunks < n then [Close] else []))"
proof (induction n arbitrary: s chunks)
  case 0
  show ?case by simp
next
  case (Suc n)
  show ?case
  proof (cases chunks)
    case Nil
    then show ?thesis by (cases f) simp_all
  next
    case (Cons chunk rest)
    then show ?thesis by (simp add: Suc.IH)
  qed
qed

lemma consume_Generator:
  "consume n (Generator s chunks f) =
     (take n chunks, if n = 0 \<and> \<not> s then [] else [Close])"
  by (auto simp add: consume_def pull_Generator)

lemma drain_Generator: "drain (Generator s chunks f) = (chunks, [Close])"
  by (simp add: drain_def consume_Generator)

lemma proxy_streams:
  assumes "url \<noteq> []"
    and "requests_get E ''https://tele-social.vercel.app/down'' [(''url'', url)] 90 True = Inr r"
    and "status_code r < 400"
    and "\<not> str_contains ''application/json'' (lower (dict_get (headers r) ''content-type'' []))"
  shows "download_content_via_proxy E url =
           \<lparr>outcome = StreamingResponse (file_streaming_generator r 65536) (status_code r)
              (stream_headers E url r),
            events = [UpstreamGet ''https://tele-social.vercel.app/down'' [(''url'', url)]]\<rparr>"
  using assms(1,3,4)
  by (simp add: download_content_via_proxy_def get_content_on_response [OF assms(2)] Let_def)


lemma stream_headers_content_type:
  "map_of (stream_headers E url r) ''Content-Type'' = map_of (headers r) ''content-type''"
  by (simp add: stream_headers_def Let_def split: option.splits)


lemma slices_short:
  assumes "piece \<noteq> []" and "length piece \<le> n"
  shows "slices n piece = [piece]"
proof -
  from assms have "0 < n"
    by (cases piece) auto
  with assms show ?thesis
    by (subst slices.simps, subst slices.simps) simp
qed


lemma video_chunks: "iter_content video_response 65536 = [[0, 0, 0, 24, 102]]"
  by (simp add: video_response_def example_response_def slices_short)



lemma video_streams:
  "download_content_via_proxy (example_env (Inr video_response))
     ''https://x.test/media/clip.MP4'' =
     \<lparr>outcome = StreamingResponse (Generator False [[0, 0, 0, 24, 102]] None) 200
        [(''Content-Type'', ''video/mp4''),
         (''Content-Disposition'', attachment ''clip.MP4''),
         (''Content-Length'', ''5'')],
      events = [UpstreamGet ''https://tele-social.vercel.app/down''
        [(''url'', ''https://x.test/media/clip.MP4'')]]\<rparr>"
proof -
  let ?E = "example_env (Inr video_response)"
  let ?url = "''https://x.test/media/clip.MP4''"
  have nonempty: "?url \<noteq> []"
    by simp
  have reply: "requests_get ?E ''https://tele-social.vercel.app/down'' [(''url'', ?url)] 90 True =
      Inr video_response"
    by (simp add: example_env_def)
  have ok: "status_code video_response < 400"
    by (simp add: video_response_def example_response_def)
  have ct: "\<not> str_contains ''application/json''
      (lower (dict_get (headers video_response) ''content-type'' []))"
    by code_simp
  have hs: "stream_headers ?E ?url video_response =
      [(''Content-Type'', ''video/mp4''),
       (''Content-Disposition'', attachment ''clip.MP4''),
       (''Content-Length'', ''5'')]"
    by code_simp
  have unbroken: "broken video_response = None"
    by (simp add: video_response_def example_response_def)
  have g: "file_streaming_generator video_response 65536 =
      Generator False [[0, 0, 0, 24, 102]] None"
    by (simp only: file_streaming_generator_def video_chunks unbroken)
  have st: "status_code video_response = 200"
    by (simp add: video_response_def example_response_def)
  show ?thesis
    by (simp only: proxy_streams [OF nonempty reply ok ct] hs g st)
qed




section \<open>Closing the upstream response\<close>

lemma closed_once_after_read:
  assumes "url \<noteq> []"
    and "requests_get E ''https://tele-social.vercel.app/down'' [(''url'', url)] 90 True = Inr r"
    and "status_code r \<ge> 400 \<or>
         str_contains ''application/json'' (lower (dict_get (headers r) ''content-type'' []))"
  shows "closes (events (download_content_via_proxy E url)) = 1"
  using assms(1,3)
  by (auto simp add: download_content_via_proxy_def get_content_on_response [OF assms(2)]
      read_text_and_close_sync_def parse_json_and_close_sync_def JSONResponse_init_def
      closes_def Let_def split: option.splits sum.splits json_error.splits)

lemma closed_once_when_started:
  assumes "url \<noteq> []"
    and "requests_get E ''https://tele-social.vercel.app/down'' [(''url'', url)] 90 True = Inr r"
    and "status_code r < 400"
    and "\<not> str_contains ''application/json'' (lower (dict_get (headers r) ''content-type'' []))"
  shows "closes (events (download_content_via_proxy E url) @
           snd (consume (Suc n) (file_streaming_generator r 65536))) = 1"
    and "closes (events (download_content_via_proxy E url) @
           snd (drain (file_streaming_generator r 65536))) = 1"
    and "closes (events (download_content_via_proxy E url) @
           snd (consume 0 (file_streaming_generator r 65536))) = 0"
  by (simp_all add: proxy_streams [OF assms] file_streaming_generator_def consume_Generator
      drain_Generator closes_def)

text \<open>
  C9, at an input where it fails: the answer is a stream and the consumer lets go of the
  generator before it has asked for a first chunk. The body of the generator is never
  entered, so its \<open>finally\<close> clause does not run and the response is not closed at all; a
  consumer that asks for one chunk before it lets go has the response closed once.
\<close>

theorem unstarted_stream_never_closed:
  "outcome (download_content_via_proxy (example_env (Inr video_response))
     ''https://x.test/media/clip.MP4'') =
     StreamingResponse (Generator False [[0, 0, 0, 24, 102]] None) 200
       [(''Content-Type'', ''video/mp4''),
        (''Content-Disposition'', attachment ''clip.MP4''),
        (''Content-Length'', ''5'')] \<and>
   closes (events (download_content_via_proxy (example_env (Inr video_response))
       ''https://x.test/media/clip.MP4'') @
     snd (consume 0 (Generator False [[0, 0, 0, 24, 102]] None))) = 0 \<and>
   closes (events (download_content_via_proxy (example_env (Inr video_response))
       ''https://x.test/media/clip.MP4'') @
     snd (consume 1 (Generator False [[0, 0, 0, 24, 102]] None))) = 1"
  by (simp add: video_streams consume_Generator closes_def)

section \<open>The synthesized file name\<close>








lemma alnum_not_space: "py_isalnum c \<Longrightarrow> \<not> py_isspace c"
proof -
  define n where "n = (of_char c :: nat)"
  assume "py_isalnum c"
  then have "(48 \<le> n \<and> n \<le> 57) \<or> (65 \<le> n \<and> n \<le> 90) \<or> (97 \<le> n \<and> n \<le> 122) \<or> 170 \<le> n"
    unfolding py_isalnum_def Let_def n_def by linarith
  then have "\<not> ((9 \<le> n \<and> n \<le> 13) \<or> (28 \<le> n \<and> n \<le> 32) \<or> n = 133 \<or> n = 160)"
    by linarith
  then show ?thesis
    unfolding py_isspace_def Let_def n_def .
qed

lemma punct_not_space: "c \<in> set ''._-'' \<Longrightarrow> \<not> py_isspace c"
  by (auto simp add: py_isspace_def)

lemma kept_not_space:
  assumes "py_isalnum c \<or> c \<in> set ''._-''"
  shows "\<not> py_isspace c"
  using assms
proof
  assume "py_isalnum c"
  then show ?thesis by (rule alnum_not_space)
next
  assume "c \<in> set ''._-''"
  then show ?thesis by (rule punct_not_space)
qed

lemma dropWhile_none: "\<forall>c \<in> set xs. \<not> P c \<Longrightarrow> dropWhile P xs = xs"
  by (cases xs) auto

lemma strip_without_space:
  assumes "\<forall>c \<in> set s. \<not> py_isspace c"
  shows "strip s = s"
proof -
  have front: "dropWhile py_isspace s = s"
    using assms by (rule dropWhile_none)
  from assms have "\<forall>c \<in> set (rev s). \<not> py_isspace c"
    by simp
  then have "dropWhile py_isspace (rev s) = rev s"
    by (rule dropWhile_none)
  with front show ?thesis
    by (simp add: strip_def)
qed

lemma sanitize_eq:
  "sanitize name =
     (if filter (\<lambda>c. py_isalnum c \<or> c \<in> set ''._-'') name = [] then ''downloaded_file''
      else filter (\<lambda>c. py_isalnum c \<or> c \<in> set ''._-'') name)"
proof -
  have "strip (filter (\<lambda>c. py_isalnum c \<or> c \<in> set ''._-'') name) =
      filter (\<lambda>c. py_isalnum c \<or> c \<in> set ''._-'') name"
    by (rule strip_without_space) (use kept_not_space in auto)
  then show ?thesis
    by (simp add: sanitize_def Let_def)
qed

lemma sanitize_default: "sanitize ''downloaded_file'' = ''downloaded_file''"
  by code_simp

lemma stream_headers_disposition:
  assumes "map_of (headers r) ''content-disposition'' = None"
  shows "map_of (stream_headers E url r) ''Content-Disposition'' =
           Some (case derive_filename E url
                        (case map_of (headers r) ''content-type'' of
                           Some v \<Rightarrow> [(''Content-Type'', v)] | None \<Rightarrow> []) of
                   Some name \<Rightarrow> attachment (sanitize name)
                 | None \<Rightarrow> attachment ''downloaded_file'')"
  using assms by (simp add: stream_headers_def Let_def split: option.splits)

lemma guess_argument:
  "dict_get (case map_of (headers r) ''content-type'' of
               Some v \<Rightarrow> [(''Content-Type'', v)] | None \<Rightarrow> [])
     ''Content-Type'' ''application/octet-stream'' =
   (case map_of (headers r) ''content-type'' of
      Some v \<Rightarrow> v | None \<Rightarrow> ''application/octet-stream'')"
  by (simp add: dict_get_def split: option.splits)

lemma disposition_cases:
  fixes E :: env and url :: string and r :: upstream_response
  assumes "map_of (headers r) ''content-disposition'' = None"
  defines "disposition \<equiv> map_of (stream_headers E url r) ''Content-Disposition''"
    and "guess \<equiv> guess_extension E
           (case map_of (headers r) ''content-type'' of
              Some v \<Rightarrow> v | None \<Rightarrow> ''application/octet-stream'')"
  shows "urlparse_path E url = None \<Longrightarrow> disposition = Some (attachment ''downloaded_file'')"
    and "urlparse_path E url = Some path \<Longrightarrow> basename path = [] \<Longrightarrow>
           disposition = Some (attachment ''downloaded_file'')"
    and "urlparse_path E url = Some path \<Longrightarrow> basename path \<noteq> [] \<Longrightarrow> guess = Some ext \<Longrightarrow>
           ext \<noteq> [] \<Longrightarrow>
           \<not> endswith (lower (split_first CHR ''#'' (split_first CHR ''?'' (basename path))))
               (lower ext) \<Longrightarrow>
           disposition = Some (attachment (sanitize
             (split_first CHR ''#'' (split_first CHR ''?'' (basename path)) @ ext)))"
    and "urlparse_path E url = Some path \<Longrightarrow> basename path \<noteq> [] \<Longrightarrow>
           guess = None \<or> guess = Some [] \<or>
           (\<exists>ext. guess = Some ext \<and>
              endswith (lower (split_first CHR ''#'' (split_first CHR ''?'' (basename path))))
                (lower ext)) \<Longrightarrow>
           disposition = Some (attachment (sanitize
             (split_first CHR ''#'' (split_first CHR ''?'' (basename path)))))"
proof -
  note unfold = disposition_def guess_def stream_headers_disposition [OF assms(1)]
    derive_filename_def guess_argument Let_def
  show "disposition = Some (attachment ''downloaded_file'')" if "urlparse_path E url = None"
    using that by (simp add: unfold)
  show "disposition = Some (attachment ''downloaded_file'')"
    if "urlparse_path E url = Some path" and "basename path = []"
    using that by (simp add: unfold sanitize_default)
  show "disposition = Some (attachment (sanitize
      (split_first CHR ''#'' (split_first CHR ''?'' (basename path)) @ ext)))"
    if "urlparse_path E url = Some path" and "basename path \<noteq> []" and "guess = Some ext"
      and "ext \<noteq> []"
      and "\<not> endswith (lower (split_first CHR ''#'' (split_first CHR ''?'' (basename path))))
        (lower ext)"
    using that by (simp add: unfold)
  show "disposition = Some (attachment (sanitize
      (split_first CHR ''#'' (split_first CHR ''?'' (basename path)))))"
    if "urlparse_path E url = Some path" and "basename path \<noteq> []"
      and "guess = None \<or> guess = Some [] \<or>
        (\<exists>ext. guess = Some ext \<and>
           endswith (lower (split_first CHR ''#'' (split_first CHR ''?'' (basename path))))
             (lower ext))"
    using that by (auto simp add: unfold)
qed



text \<open>
  C10: the string handed to the extension guess is the whole Content-Type value of the
  upstream response, the one that is copied into the answer, parameters included; when the
  guess finds no extension for it, the stem is used as it is. When upstream sends no
  Content-Type, the guess is made for \<open>application/octet-stream\<close> and the streamed answer
  has no Content-Type header.
\<close>

theorem extension_guess_uses_whole_header:
  assumes "url \<noteq> []"
    and "requests_get E ''https://tele-social.vercel.app/down'' [(''url'', url)] 90 True = Inr r"
    and "status_code r < 400"
    and "\<not> str_contains ''application/json'' (lower (dict_get (headers r) ''content-type'' []))"
    and "map_of (headers r) ''content-disposition'' = None"
    and "urlparse_path E url = Some path"
    and "basename path \<noteq> []"
  shows "\<exists>g hs.
           outcome (download_content_via_proxy E url) = StreamingResponse g (status_code r) hs \<and>
           (\<forall>v. map_of (headers r) ''content-type'' = Some v \<longrightarrow>
              map_of hs ''Content-Type'' = Some v \<and>
              (guess_extension E v = None \<longrightarrow>
                 map_of hs ''Content-Disposition'' =
                   Some (attachment (sanitize
                     (split_first CHR ''#'' (split_first CHR ''?'' (basename path)))))) \<and>
              (\<forall>ext. guess_extension E v = Some ext \<and> ext \<noteq> [] \<and>
                 \<not> endswith (lower (split_first CHR ''#'' (split_first CHR ''?'' (basename path))))
                     (lower ext) \<longrightarrow>
                 map_of hs ''Content-Disposition'' =
                   Some (attachment (sanitize
                     (split_first CHR ''#'' (split_first CHR ''?'' (basename path)) @ ext))))) \<and>
           (map_of (headers r) ''content-type'' = None \<longrightarrow>
              map_of hs ''Content-Type'' = None \<and>
              (guess_extension E ''application/octet-stream'' = None \<longrightarrow>
                 map_of hs ''Content-Disposition'' =
                   Some (attachment (sanitize
                     (split_first CHR ''#'' (split_first CHR ''?'' (basename path)))))) \<and>
              (\<forall>ext. guess_extension E ''application/octet-stream'' = Some ext \<and> ext \<noteq> [] \<and>
                 \<not> endswith (lower (split_first CHR ''#'' (split_first CHR ''?'' (basename path))))
                     (lower ext) \<longrightarrow>
                 map_of hs ''Content-Disposition'' =
                   Some (attachment (sanitize
                     (split_first CHR ''#'' (split_first CHR ''?'' (basename path)) @ ext)))))"
proof -
  let ?g = "file_streaming_generator r 65536"
  let ?hs = "stream_headers E url r"
  let ?stem = "split_first CHR ''#'' (split_first CHR ''?'' (basename path))"
  note appended = disposition_cases(3) [OF assms(5,6,7)]
  note plain = disposition_cases(4) [OF assms(5,6,7)]
  have out: "outcome (download_content_via_proxy E url) =
      StreamingResponse ?g (status_code r) ?hs"
    by (simp add: proxy_streams [OF assms(1-4)])
  have typed: "\<forall>v. map_of (headers r) ''content-type'' = Some v \<longrightarrow>
      map_of ?hs ''Content-Type'' = Some v \<and>
      (guess_extension E v = None \<longrightarrow>
         map_of ?hs ''Content-Disposition'' = Some (attachment (sanitize ?stem))) \<and>
      (\<forall>ext. guess_extension E v = Some ext \<and> ext \<noteq> [] \<and>
         \<not> endswith (lower ?stem) (lower ext) \<longrightarrow>
         map_of ?hs ''Content-Disposition'' = Some (attachment (sanitize (?stem @ ext))))"
  proof (intro allI impI)
    fix v
    assume v: "map_of (headers r) ''content-type'' = Some v"
    have copied: "map_of ?hs ''Content-Type'' = Some v"
      by (simp add: stream_headers_content_type v)
    have none: "guess_extension E v = None \<longrightarrow>
        map_of ?hs ''Content-Disposition'' = Some (attachment (sanitize ?stem))"
      using plain by (simp add: v)
    have some: "\<forall>ext. guess_extension E v = Some ext \<and> ext \<noteq> [] \<and>
        \<not> endswith (lower ?stem) (lower ext) \<longrightarrow>
        map_of ?hs ''Content-Disposition'' = Some (attachment (sanitize (?stem @ ext)))"
      using appended by (simp add: v)
    from copied none some
    show "map_of ?hs ''Content-Type'' = Some v \<and>
      (guess_extension E v = None \<longrightarrow>
         map_of ?hs ''Content-Disposition'' = Some (attachment (sanitize ?stem))) \<and>
      (\<forall>ext. guess_extension E v = Some ext \<and> ext \<noteq> [] \<and>
         \<not> endswith (lower ?stem) (lower ext) \<longrightarrow>
         map_of ?hs ''Content-Disposition'' = Some (attachment (sanitize (?stem @ ext))))"
      by (intro conjI)
  qed
  have untyped: "map_of (headers r) ''content-type'' = None \<longrightarrow>
      map_of ?hs ''Content-Type'' = None \<and>
      (guess_extension E ''application/octet-stream'' = None \<longrightarrow>
         map_of ?hs ''Content-Disposition'' = Some (attachment (sanitize ?stem))) \<and>
      (\<forall>ext. guess_extension E ''application/octet-stream'' = Some ext \<and> ext \<noteq> [] \<and>
         \<not> endswith (lower ?stem) (lower ext) \<longrightarrow>
         map_of ?hs ''Content-Disposition'' = Some (attachment (sanitize (?stem @ ext))))"
  proof (intro impI)
    assume v: "map_of (headers r) ''content-type'' = None"
    have omitted: "map_of ?hs ''Content-Type'' = None"
      by (simp add: stream_headers_content_type v)
    have none: "guess_extension E ''application/octet-stream'' = None \<longrightarrow>
        map_of ?hs ''Content-Disposition'' = Some (attachment (sanitize ?stem))"
      using plain by (simp add: v)
    have some: "\<forall>ext. guess_extension E ''application/octet-stream'' = Some ext \<and> ext \<noteq> [] \<and>
        \<not> endswith (lower ?stem) (lower ext) \<longrightarrow>
        map_of ?hs ''Content-Disposition'' = Some (attachment (sanitize (?stem @ ext)))"
      using appended by (simp add: v)
    from omitted none some
    show "map_of ?hs ''Content-Type'' = None \<and>
      (guess_extension E ''application/octet-stream'' = None \<longrightarrow>
         map_of ?hs ''Content-Disposition'' = Some (attachment (sanitize ?stem))) \<and>
      (\<forall>ext. guess_extension E ''application/octet-stream'' = Some ext \<and> ext \<noteq> [] \<and>
         \<not> endswith (lower ?stem) (lower ext) \<longrightarrow>
         map_of ?hs ''Content-Disposition'' = Some (attachment (sanitize (?stem @ ext))))"
      by (intro conjI)
  qed
  show ?thesis
    apply (rule exI [of _ "?g"])
    apply (rule exI [of _ "?hs"])
    apply (intro conjI)
      apply (rule out)
     apply (rule typed)
    apply (rule untyped)
    done
qed

theorem extension_guess_uses_whole_header_witness:
  "(\<exists>g hs.
      outcome (download_content_via_proxy (example_env (Inr charset_response))
        ''https://x.test/p/abc.def?x=1'') = StreamingResponse g 200 hs \<and>
      map_of hs ''Content-Type'' = Some ''video/mp4; charset=utf-8'' \<and>
      map_of hs ''Content-Disposition'' = Some (attachment ''abc.def'')) \<and>
   (\<exists>g hs.
      outcome (download_content_via_proxy (example_env (Inr untyped_response))
        ''https://x.test/p/abc.def?x=1'') = StreamingResponse g 200 hs \<and>
      map_of hs ''Content-Type'' = None \<and>
      map_of hs ''Content-Disposition'' = Some (attachment ''abc.def.bin''))"
proof -
  let ?url = "''https://x.test/p/abc.def?x=1''"
  let ?stem = "split_first CHR ''#'' (split_first CHR ''?'' (basename ''/p/abc.def''))"
  have nonempty: "?url \<noteq> []"
    by simp
  have reply: "requests_get (example_env (Inr r)) ''https://tele-social.vercel.app/down''
      [(''url'', ?url)] 90 True = Inr r" for r
    by (simp add: example_env_def)
  have path: "urlparse_path (example_env reply) ?url = Some ''/p/abc.def''" for reply
    by (simp add: example_env_def example_urls_def)
  have segment: "basename ''/p/abc.def'' \<noteq> []"
    by code_simp
  have stem: "?stem = ''abc.def''"
    by code_simp
  have first: "\<exists>g hs.
      outcome (download_content_via_proxy (example_env (Inr charset_response)) ?url) =
        StreamingResponse g 200 hs \<and>
      map_of hs ''Content-Type'' = Some ''video/mp4; charset=utf-8'' \<and>
      map_of hs ''Content-Disposition'' = Some (attachment ''abc.def'')"
  proof -
    let ?E = "example_env (Inr charset_response)"
    have ok: "status_code charset_response < 400"
      and st: "status_code charset_response = 200"
      and nocd: "map_of (headers charset_response) ''content-disposition'' = None"
      and typed: "map_of (headers charset_response) ''content-type'' =
        Some ''video/mp4; charset=utf-8''"
      by (simp_all add: charset_response_def example_response_def)
    have ct: "\<not> str_contains ''application/json''
        (lower (dict_get (headers charset_response) ''content-type'' []))"
      by code_simp
    have unknown: "guess_extension ?E ''video/mp4; charset=utf-8'' = None"
      by code_simp
    have clean: "sanitize ''abc.def'' = ''abc.def''"
      by code_simp
    from extension_guess_uses_whole_header [OF nonempty reply ok ct nocd path segment]
    obtain g hs where
      out: "outcome (download_content_via_proxy ?E ?url) =
        StreamingResponse g (status_code charset_response) hs"
      and whole: "\<forall>v. map_of (headers charset_response) ''content-type'' = Some v \<longrightarrow>
        map_of hs ''Content-Type'' = Some v \<and>
        (guess_extension ?E v = None \<longrightarrow>
           map_of hs ''Content-Disposition'' = Some (attachment (sanitize ?stem))) \<and>
        (\<forall>ext. guess_extension ?E v = Some ext \<and> ext \<noteq> [] \<and>
           \<not> endswith (lower ?stem) (lower ext) \<longrightarrow>
           map_of hs ''Content-Disposition'' = Some (attachment (sanitize (?stem @ ext))))"
      by (elim exE conjE)
    note at = whole [rule_format, OF typed]
    from at have copied: "map_of hs ''Content-Type'' = Some ''video/mp4; charset=utf-8''"
      by (rule conjunct1)
    from at have "guess_extension ?E ''video/mp4; charset=utf-8'' = None \<longrightarrow>
        map_of hs ''Content-Disposition'' = Some (attachment (sanitize ?stem))"
      by (rule conjunct2 [THEN conjunct1])
    then have "map_of hs ''Content-Disposition'' = Some (attachment (sanitize ?stem))"
      using unknown by (rule mp)
    then have "map_of hs ''Content-Disposition'' = Some (attachment ''abc.def'')"
      by (simp only: stem clean)
    with out copied have "outcome (download_content_via_proxy ?E ?url) =
        StreamingResponse g 200 hs \<and>
      map_of hs ''Content-Type'' = Some ''video/mp4; charset=utf-8'' \<and>
      map_of hs ''Content-Disposition'' = Some (attachment ''abc.def'')"
      by (simp only: st simp_thms)
    then show ?thesis
      by (intro exI)
  qed
  have second: "\<exists>g hs.
      outcome (download_content_via_proxy (example_env (Inr untyped_response)) ?url) =
        StreamingResponse g 200 hs \<and>
      map_of hs ''Content-Type'' = None \<and>
      map_of hs ''Content-Disposition'' = Some (attachment ''abc.def.bin'')"
  proof -
    let ?E = "example_env (Inr untyped_response)"
    have ok: "status_code untyped_response < 400"
      and st: "status_code untyped_response = 200"
      and nocd: "map_of (headers untyped_response) ''content-disposition'' = None"
      and untyped: "map_of (headers untyped_response) ''content-type'' = None"
      by (simp_all add: untyped_response_def example_response_def)
    have ct: "\<not> str_contains ''application/json''
        (lower (dict_get (headers untyped_response) ''content-type'' []))"
      by code_simp
    have bin: "guess_extension ?E ''application/octet-stream'' = Some ''.bin'' \<and> ''.bin'' \<noteq> [] \<and>
        \<not> endswith (lower ?stem) (lower ''.bin'')"
      by code_simp
    have clean: "sanitize (?stem @ ''.bin'') = ''abc.def.bin''"
      by code_simp
    from extension_guess_uses_whole_header [OF nonempty reply ok ct nocd path segment]
    obtain g hs where
      out: "outcome (download_content_via_proxy ?E ?url) =
        StreamingResponse g (status_code untyped_response) hs"
      and dflt: "map_of (headers untyped_response) ''content-type'' = None \<longrightarrow>
        map_of hs ''Content-Type'' = None \<and>
        (guess_extension ?E ''application/octet-stream'' = None \<longrightarrow>
           map_of hs ''Content-Disposition'' = Some (attachment (sanitize ?stem))) \<and>
        (\<forall>ext. guess_extension ?E ''application/octet-stream'' = Some ext \<and> ext \<noteq> [] \<and>
           \<not> endswith (lower ?stem) (lower ext) \<longrightarrow>
           map_of hs ''Content-Disposition'' = Some (attachment (sanitize (?stem @ ext))))"
      by (elim exE conjE)
    note at = dflt [rule_format, OF untyped]
    from at have omitted: "map_of hs ''Content-Type'' = None"
      by (rule conjunct1)
    from at have "\<forall>ext. guess_extension ?E ''application/octet-stream'' = Some ext \<and> ext \<noteq> [] \<and>
           \<not> endswith (lower ?stem) (lower ext) \<longrightarrow>
           map_of hs ''Content-Disposition'' = Some (attachment (sanitize (?stem @ ext)))"
      by (rule conjunct2 [THEN conjunct2])
    then have "guess_extension ?E ''application/octet-stream'' = Some ''.bin'' \<and> ''.bin'' \<noteq> [] \<and>
           \<not> endswith (lower ?stem) (lower ''.bin'') \<longrightarrow>
           map_of hs ''Content-Disposition'' = Some (attachment (sanitize (?stem @ ''.bin'')))"
      by (rule spec)
    then have "map_of hs ''Content-Disposition'' = Some (attachment (sanitize (?stem @ ''.bin'')))"
      using bin by (rule mp)
    then have "map_of hs ''Content-Disposition'' = Some (attachment ''abc.def.bin'')"
      by (simp only: clean)
    with out omitted have "outcome (download_content_via_proxy ?E ?url) =
        StreamingResponse g 200 hs \<and>
      map_of hs ''Content-Type'' = None \<and>
      map_of hs ''Content-Disposition'' = Some (attachment ''abc.def.bin'')"
      by (simp only: st simp_thms)
    then show ?thesis
      by (intro exI)
  qed
  from first second show ?thesis
    by (rule conjI)
qed

section \<open>The characters of the file name\<close>

lemma default_kept:
  "list_all (\<lambda>c. py_isalnum c \<or> c \<in> set ''._-'') ''downloaded_file''"
  by code_simp

lemma sanitize_kept:
  assumes "c \<in> set (sanitize name)"
  shows "py_isalnum c \<or> c \<in> set ''._-''"
proof (cases "filter (\<lambda>c. py_isalnum c \<or> c \<in> set ''._-'') name = []")
  case True
  then have default: "sanitize name = ''downloaded_file''"
    by (simp only: sanitize_eq simp_thms if_True)
  from assms have "c \<in> set ''downloaded_file''"
    unfolding default .
  with default_kept show ?thesis
    by (simp only: list_all_iff)
next
  case False
  then have kept: "sanitize name = filter (\<lambda>c. py_isalnum c \<or> c \<in> set ''._-'') name"
    by (simp only: sanitize_eq simp_thms if_False)
  from assms have "c \<in> set (filter (\<lambda>c. py_isalnum c \<or> c \<in> set ''._-'') name)"
    unfolding kept .
  then show ?thesis
    by simp
qed

lemma sanitize_nonempty: "sanitize name \<noteq> []"
  by (simp add: sanitize_eq)

lemma ascii_alnum_in_charset:
  assumes "py_isalnum c" and "(of_char c :: nat) < 128"
  shows "in_charset c"
proof -
  define n where "n = (of_char c :: nat)"
  from assms(1) have "(48 \<le> n \<and> n \<le> 57) \<or> (65 \<le> n \<and> n \<le> 90) \<or> (97 \<le> n \<and> n \<le> 122) \<or>
      170 \<le> n"
    unfolding py_isalnum_def Let_def n_def by linarith
  with assms(2) have "(48 \<le> n \<and> n \<le> 57) \<or> (65 \<le> n \<and> n \<le> 90) \<or> (97 \<le> n \<and> n \<le> 122)"
    unfolding n_def by linarith
  then show ?thesis
    unfolding in_charset_def Let_def n_def by blast
qed

lemma punct_in_charset: "c \<in> set ''._-'' \<Longrightarrow> in_charset c"
  by (auto simp add: in_charset_def)

lemma sanitize_ascii:
  assumes "c \<in> set (sanitize name)" and "(of_char c :: nat) < 128"
  shows "in_charset c"
  using sanitize_kept [OF assms(1)]
proof
  assume "py_isalnum c"
  then show ?thesis using assms(2) by (rule ascii_alnum_in_charset)
next
  assume "c \<in> set ''._-''"
  then show ?thesis by (rule punct_in_charset)
qed

lemma disposition_sanitized:
  assumes "map_of (headers r) ''content-disposition'' = None"
  shows "\<exists>name. map_of (stream_headers E url r) ''Content-Disposition'' =
           Some (attachment (sanitize name))"
proof (cases "derive_filename E url
    (case map_of (headers r) ''content-type'' of
       Some v \<Rightarrow> [(''Content-Type'', v)] | None \<Rightarrow> [])")
  case None
  then have "map_of (stream_headers E url r) ''Content-Disposition'' =
      Some (attachment (sanitize ''downloaded_file''))"
    by (simp add: stream_headers_disposition [OF assms] sanitize_default)
  then show ?thesis
    by (rule exI)
next
  case (Some name)
  then have "map_of (stream_headers E url r) ''Content-Disposition'' =
      Some (attachment (sanitize name))"
    by (simp add: stream_headers_disposition [OF assms])
  then show ?thesis
    by (rule exI)
qed

text \<open>
  C8, as the code has it: every character of a synthesized file name is alphanumeric in
  the sense of Python's \<open>str.isalnum\<close>, which holds for letters and digits beyond ASCII as
  well, or is one of \<open>.\<close>, \<open>_\<close>, \<open>-\<close>; every ASCII character of the name is in
  \<open>[A-Za-z0-9._-]\<close>; the name is never empty, and a name of which sanitizing keeps no
  character becomes \<open>downloaded_file\<close>.
\<close>

theorem sanitized_filename_characters:
  assumes "url \<noteq> []"
    and "requests_get E ''https://tele-social.vercel.app/down'' [(''url'', url)] 90 True = Inr r"
    and "status_code r < 400"
    and "\<not> str_contains ''application/json'' (lower (dict_get (headers r) ''content-type'' []))"
    and "map_of (headers r) ''content-disposition'' = None"
  shows "\<exists>g hs filename.
           outcome (download_content_via_proxy E url) = StreamingResponse g (status_code r) hs \<and>
           map_of hs ''Content-Disposition'' = Some (attachment filename) \<and>
           filename \<noteq> [] \<and>
           (\<forall>c \<in> set filename. py_isalnum c \<or> c = CHR ''.'' \<or> c = CHR ''_'' \<or> c = CHR ''-'') \<and>
           (\<forall>c \<in> set filename. (of_char c :: nat) < 128 \<longrightarrow> in_charset c) \<and>
           (\<forall>name. filter (\<lambda>c. py_isalnum c \<or> c \<in> set ''._-'') name = [] \<longrightarrow>
              sanitize name = ''downloaded_file'')"
proof -
  let ?g = "file_streaming_generator r 65536"
  let ?hs = "stream_headers E url r"
  from disposition_sanitized [OF assms(5)] obtain name where
    named: "map_of ?hs ''Content-Disposition'' = Some (attachment (sanitize name))"
    by (rule exE)
  have out: "outcome (download_content_via_proxy E url) =
      StreamingResponse ?g (status_code r) ?hs"
    by (simp add: proxy_streams [OF assms(1-4)])
  have filled: "sanitize name \<noteq> []"
    by (rule sanitize_nonempty)
  have kept: "\<forall>c \<in> set (sanitize name).
      py_isalnum c \<or> c = CHR ''.'' \<or> c = CHR ''_'' \<or> c = CHR ''-''"
  proof
    fix c
    assume "c \<in> set (sanitize name)"
    then have "py_isalnum c \<or> c \<in> set ''._-''"
      by (rule sanitize_kept)
    then show "py_isalnum c \<or> c = CHR ''.'' \<or> c = CHR ''_'' \<or> c = CHR ''-''"
      by simp
  qed
  have ascii: "\<forall>c \<in> set (sanitize name). (of_char c :: nat) < 128 \<longrightarrow> in_charset c"
    by (intro ballI impI) (rule sanitize_ascii)
  have dflt: "\<forall>name. filter (\<lambda>c. py_isalnum c \<or> c \<in> set ''._-'') name = [] \<longrightarrow>
      sanitize name = ''downloaded_file''"
    by (simp add: sanitize_eq)
  show ?thesis
    apply (rule exI [of _ "?g"])
    apply (rule exI [of _ "?hs"])
    apply (rule exI [of _ "sanitize name"])
    apply (intro conjI)
         apply (rule out)
        apply (rule named)
       apply (rule filled)
      apply (rule kept)
     apply (rule ascii)
    apply (rule dflt)
    done
qed

theorem sanitized_filename_characters_witness:
  "\<exists>g hs filename.
     outcome (download_content_via_proxy (example_env (Inr video_response))
       ''https://x.test/p/abc.def?x=1'') = StreamingResponse g 200 hs \<and>
     map_of hs ''Content-Disposition'' = Some (attachment filename) \<and>
     filename \<noteq> [] \<and>
     list_all (\<lambda>c. py_isalnum c \<or> c = CHR ''.'' \<or> c = CHR ''_'' \<or> c = CHR ''-'') filename"
proof -
  let ?E = "example_env (Inr video_response)"
  let ?url = "''https://x.test/p/abc.def?x=1''"
  have nonempty: "?url \<noteq> []"
    by simp
  have reply: "requests_get ?E ''https://tele-social.vercel.app/down'' [(''url'', ?url)] 90 True =
      Inr video_response"
    by (simp add: example_env_def)
  have ok: "status_code video_response < 400"
    and st: "status_code video_response = 200"
    and nocd: "map_of (headers video_response) ''content-disposition'' = None"
    by (simp_all add: video_response_def example_response_def)
  have ct: "\<not> str_contains ''application/json''
      (lower (dict_get (headers video_response) ''content-type'' []))"
    by code_simp
  from sanitized_filename_characters [OF nonempty reply ok ct nocd] obtain g hs filename where
    out: "outcome (download_content_via_proxy ?E ?url) =
      StreamingResponse g (status_code video_response) hs"
    and named: "map_of hs ''Content-Disposition'' = Some (attachment filename)"
    and filled: "filename \<noteq> []"
    and kept: "\<forall>c \<in> set filename.
      py_isalnum c \<or> c = CHR ''.'' \<or> c = CHR ''_'' \<or> c = CHR ''-''"
    by (elim exE conjE)
  from kept have all: "list_all
      (\<lambda>c. py_isalnum c \<or> c = CHR ''.'' \<or> c = CHR ''_'' \<or> c = CHR ''-'') filename"
    by (simp only: list_all_iff)
  from out have "outcome (download_content_via_proxy ?E ?url) = StreamingResponse g 200 hs"
    by (simp only: st)
  with named filled all have "outcome (download_content_via_proxy ?E ?url) =
      StreamingResponse g 200 hs \<and>
    map_of hs ''Content-Disposition'' = Some (attachment filename) \<and>
    filename \<noteq> [] \<and>
    list_all (\<lambda>c. py_isalnum c \<or> c = CHR ''.'' \<or> c = CHR ''_'' \<or> c = CHR ''-'') filename"
    by (intro conjI)
  then show ?thesis
    by (intro exI)
qed

text \<open>
  The claim as the spec words it fails for a target URL with a letter beyond ASCII: the
  letter U+00E9 is alphanumeric for \<open>str.isalnum\<close>, stays in the file name, and is not in
  \<open>[A-Za-z0-9._-]\<close>.
\<close>

theorem non_ascii_filename_counterexample:
  "outcome (download_content_via_proxy (example_env (Inr video_response))
     (''https://x.test/caf'' @ [CHR 0xE9])) =
     StreamingResponse (Generator False [[0, 0, 0, 24, 102]] None) 200
       [(''Content-Type'', ''video/mp4''),
        (''Content-Disposition'', attachment (''caf'' @ [CHR 0xE9] @ ''.mp4'')),
        (''Content-Length'', ''5'')] \<and>
   CHR 0xE9 \<in> set (''caf'' @ [CHR 0xE9] @ ''.mp4'') \<and>
   py_isalnum (CHR 0xE9) \<and>
   \<not> in_charset (CHR 0xE9)"
proof -
  let ?E = "example_env (Inr video_response)"
  let ?url = "''https://x.test/caf'' @ [CHR 0xE9]"
  have nonempty: "?url \<noteq> []"
    by simp
  have reply: "requests_get ?E ''https://tele-social.vercel.app/down'' [(''url'', ?url)] 90 True =
      Inr video_response"
    by (simp add: example_env_def)
  have ok: "status_code video_response < 400"
    and st: "status_code video_response = 200"
    by (simp_all add: video_response_def example_response_def)
  have ct: "\<not> str_contains ''application/json''
      (lower (dict_get (headers video_response) ''content-type'' []))"
    by code_simp
  have hs: "stream_headers ?E ?url video_response =
      [(''Content-Type'', ''video/mp4''),
       (''Content-Disposition'', attachment (''caf'' @ [CHR 0xE9] @ ''.mp4'')),
       (''Content-Length'', ''5'')]"
    by code_simp
  have g: "file_streaming_generator video_response 65536 =
      Generator False [[0, 0, 0, 24, 102]] None"
  proof -
    have "broken video_response = None"
      by (simp add: video_response_def example_response_def)
    then show ?thesis
      by (simp only: file_streaming_generator_def video_chunks)
  qed
  have out: "outcome (download_content_via_proxy ?E ?url) =
      StreamingResponse (Generator False [[0, 0, 0, 24, 102]] None) 200
        [(''Content-Type'', ''video/mp4''),
         (''Content-Disposition'', attachment (''caf'' @ [CHR 0xE9] @ ''.mp4'')),
         (''Content-Length'', ''5'')]"
    by (simp only: proxy_streams [OF nonempty reply ok ct] hs g st result.simps)
  have member: "CHR 0xE9 \<in> set (''caf'' @ [CHR 0xE9] @ ''.mp4'')"
    by simp
  have alnum: "py_isalnum (CHR 0xE9)"
    by code_simp
  have outside: "\<not> in_charset (CHR 0xE9)"
    by code_simp
  from out member alnum outside show ?thesis
    by (intro conjI)
qed

end
